theory Spec2Isabelle
  imports Main "HOL-Library.Word" "HOL-Library.Sublist"
begin

unbundle bit_operations_syntax

section \<open>Strings, optional arguments and JavaScript truthiness\<close>

text \<open>
  A JavaScript string is modelled by the bytes of its UTF-8 encoding, one \<open>char\<close> per
  byte: that is what \<open>hmac.update(string)\<close> and \<open>createHmac('sha256', string)\<close> hash, and a
  template literal is then list concatenation. An optional parameter \<open>x?: string\<close> is a
  \<open>string option\<close>, \<open>None\<close> for \<open>undefined\<close>.
\<close>

type_synonym byte = "8 word"
type_synonym w32 = "32 word"

definition utf8 :: "string \<Rightarrow> byte list" where
  "utf8 s = map (\<lambda>c. of_nat (of_char c)) s"

text \<open>\<open>!!x\<close> for an optional string: \<open>undefined\<close> and the empty string are falsy.\<close>

definition truthy :: "string option \<Rightarrow> bool" where
  "truthy x = (case x of None \<Rightarrow> False | Some s \<Rightarrow> s \<noteq> [])"

text \<open>\<open>${x}\<close> in a template literal: \<open>undefined\<close> is rendered as the word.\<close>

fun interp :: "string option \<Rightarrow> string" where
  "interp None = ''undefined''"
| "interp (Some s) = s"

text \<open>\<open>s.startsWith(p)\<close>.\<close>

definition startsWith :: "string \<Rightarrow> string \<Rightarrow> bool" where
  "startsWith s p = (take (length p) s = p)"

section \<open>Node's crypto: HMAC-SHA256, digest encoded in base64\<close>

text \<open>
  \<open>crypto.createHmac('sha256', key).update(s).digest('base64')\<close> is library code; it is
  written out here after FIPS 180-4 (SHA-256), RFC 2104 (HMAC) and RFC 4648 (base64), so
  that a signature is a value that can be computed.
\<close>

definition K256 :: "w32 list" where
  "K256 = [
    0x428A2F98, 0x71374491, 0xB5C0FBCF, 0xE9B5DBA5, 0x3956C25B, 0x59F111F1, 0x923F82A4,
    0xAB1C5ED5, 0xD807AA98, 0x12835B01, 0x243185BE, 0x550C7DC3, 0x72BE5D74, 0x80DEB1FE,
    0x9BDC06A7, 0xC19BF174, 0xE49B69C1, 0xEFBE4786, 0x0FC19DC6, 0x240CA1CC, 0x2DE92C6F,
    0x4A7484AA, 0x5CB0A9DC, 0x76F988DA, 0x983E5152, 0xA831C66D, 0xB00327C8, 0xBF597FC7,
    0xC6E00BF3, 0xD5A79147, 0x06CA6351, 0x14292967, 0x27B70A85, 0x2E1B2138, 0x4D2C6DFC,
    0x53380D13, 0x650A7354, 0x766A0ABB, 0x81C2C92E, 0x92722C85, 0xA2BFE8A1, 0xA81A664B,
    0xC24B8B70, 0xC76C51A3, 0xD192E819, 0xD6990624, 0xF40E3585, 0x106AA070, 0x19A4C116,
    0x1E376C08, 0x2748774C, 0x34B0BCB5, 0x391C0CB3, 0x4ED8AA4A, 0x5B9CCA4F, 0x682E6FF3,
    0x748F82EE, 0x78A5636F, 0x84C87814, 0x8CC70208, 0x90BEFFFA, 0xA4506CEB, 0xBEF9A3F7,
    0xC67178F2]"

type_synonym hstate = "w32 \<times> w32 \<times> w32 \<times> w32 \<times> w32 \<times> w32 \<times> w32 \<times> w32"

definition H0 :: hstate where
  "H0 = (0x6A09E667, 0xBB67AE85, 0x3C6EF372, 0xA54FF53A,
         0x510E527F, 0x9B05688C, 0x1F83D9AB, 0x5BE0CD19)"

definition Ch :: "w32 \<Rightarrow> w32 \<Rightarrow> w32 \<Rightarrow> w32" where
  "Ch x y z = (x AND y) XOR (NOT x AND z)"

definition Maj :: "w32 \<Rightarrow> w32 \<Rightarrow> w32 \<Rightarrow> w32" where
  "Maj x y z = (x AND y) XOR (x AND z) XOR (y AND z)"

definition Sigma0 :: "w32 \<Rightarrow> w32" where
  "Sigma0 x = word_rotr 2 x XOR word_rotr 13 x XOR word_rotr 22 x"

definition Sigma1 :: "w32 \<Rightarrow> w32" where
  "Sigma1 x = word_rotr 6 x XOR word_rotr 11 x XOR word_rotr 25 x"

definition sigma0 :: "w32 \<Rightarrow> w32" where
  "sigma0 x = word_rotr 7 x XOR word_rotr 18 x XOR drop_bit 3 x"

definition sigma1 :: "w32 \<Rightarrow> w32" where
  "sigma1 x = word_rotr 17 x XOR word_rotr 19 x XOR drop_bit 10 x"

definition w64_bytes :: "64 word \<Rightarrow> byte list" where
  "w64_bytes w = map (\<lambda>i. ucast (drop_bit (8 * (7 - i)) w)) [0..<8]"

text \<open>Padding: the bit 1, zeros up to 56 modulo 64 bytes, the length in bits on 8 bytes.\<close>

definition sha_pad :: "byte list \<Rightarrow> byte list" where
  "sha_pad m = m @ [0x80] @ replicate ((64 - (length m + 9) mod 64) mod 64) 0
     @ w64_bytes (of_nat (8 * length m))"

definition be32 :: "byte list \<Rightarrow> w32" where
  "be32 bs = fold (\<lambda>b acc. push_bit 8 acc OR ucast b) (take 4 bs) 0"

definition block_words :: "byte list \<Rightarrow> w32 list" where
  "block_words blk = map (\<lambda>i. be32 (drop (4 * i) blk)) [0..<16]"

fun schedule :: "nat \<Rightarrow> w32 list \<Rightarrow> w32 list" where
  "schedule 0 w = w"
| "schedule (Suc n) w =
     (let t = length w in
      schedule n
        (w @ [sigma1 (w ! (t - 2)) + w ! (t - 7) + sigma0 (w ! (t - 15)) + w ! (t - 16)]))"

fun sha_round :: "w32 \<times> w32 \<Rightarrow> hstate \<Rightarrow> hstate" where
  "sha_round (k, w) (a, b, c, d, e, f, g, h) =
     (let t1 = h + Sigma1 e + Ch e f g + k + w;
          t2 = Sigma0 a + Maj a b c
      in (t1 + t2, a, b, c, d + t1, e, f, g))"

fun hadd :: "hstate \<Rightarrow> hstate \<Rightarrow> hstate" where
  "hadd (a, b, c, d, e, f, g, h) (a', b', c', d', e', f', g', h') =
     (a + a', b + b', c + c', d + d', e + e', f + f', g + g', h + h')"

definition compress :: "byte list \<Rightarrow> hstate \<Rightarrow> hstate" where
  "compress blk st = hadd st (fold sha_round (zip K256 (schedule 48 (block_words blk))) st)"

definition sha_blocks :: "byte list \<Rightarrow> byte list list" where
  "sha_blocks p = map (\<lambda>i. take 64 (drop (64 * i) p)) [0..<length p div 64]"

definition w32_bytes :: "w32 \<Rightarrow> byte list" where
  "w32_bytes w = [ucast (drop_bit 24 w), ucast (drop_bit 16 w), ucast (drop_bit 8 w), ucast w]"

fun hstate_bytes :: "hstate \<Rightarrow> byte list" where
  "hstate_bytes (a, b, c, d, e, f, g, h) =
     w32_bytes a @ w32_bytes b @ w32_bytes c @ w32_bytes d @
     w32_bytes e @ w32_bytes f @ w32_bytes g @ w32_bytes h"

definition sha256 :: "byte list \<Rightarrow> byte list" where
  "sha256 m = hstate_bytes (fold compress (sha_blocks (sha_pad m)) H0)"

definition hmac_sha256 :: "byte list \<Rightarrow> byte list \<Rightarrow> byte list" where
  "hmac_sha256 key msg =
     (let k0 = (if length key > 64 then sha256 key else key);
          k = k0 @ replicate (64 - length k0) 0
      in sha256 (map (\<lambda>b. b XOR 0x5C) k @ sha256 (map (\<lambda>b. b XOR 0x36) k @ msg)))"

definition b64_alphabet :: string where
  "b64_alphabet = ''ABCDEFGHIJKLMNOPQRSTUVWXYZabcdefghijklmnopqrstuvwxyz0123456789+/''"

definition b64_char :: "w32 \<Rightarrow> char" where
  "b64_char n = b64_alphabet ! unat (n AND 63)"

fun base64 :: "byte list \<Rightarrow> string" where
  "base64 [] = []"
| "base64 [a] =
     (let n = push_bit 16 (ucast a)
      in [b64_char (drop_bit 18 n), b64_char (drop_bit 12 n), CHR ''='', CHR ''=''])"
| "base64 [a, b] =
     (let n = push_bit 16 (ucast a) OR push_bit 8 (ucast b)
      in [b64_char (drop_bit 18 n), b64_char (drop_bit 12 n), b64_char (drop_bit 6 n),
          CHR ''=''])"
| "base64 (a # b # c # rest) =
     (let n = push_bit 16 (ucast a) OR push_bit 8 (ucast b) OR ucast c
      in [b64_char (drop_bit 18 n), b64_char (drop_bit 12 n), b64_char (drop_bit 6 n),
          b64_char n] @ base64 rest)"

text \<open>\<open>createHmac('sha256', key).update(s).digest('base64')\<close>.\<close>

definition hmac_sha256_base64 :: "string \<Rightarrow> string \<Rightarrow> string" where
  "hmac_sha256_base64 key s = base64 (hmac_sha256 (utf8 key) (utf8 s))"

section \<open>The process: environment, clock and console\<close>

text \<open>
  What the code reads and writes besides its arguments: \<open>process.env.NODE_ENV\<close>, the
  clock behind \<open>new Date().toUTCString()\<close> and the console. \<open>utc_clock w n\<close> is the string
  the \<open>n\<close>-th evaluation of \<open>new Date().toUTCString()\<close> yields; \<open>clock_reads\<close> counts the
  evaluations made so far. The pictographs that open some console messages are the
  bytes of their UTF-8 encoding.
\<close>

datatype console_line = Log string | Warn string

definition warning_sign :: string where
  "warning_sign = [CHR 0xE2, CHR 0x9A, CHR 0xA0, CHR 0xEF, CHR 0xB8, CHR 0x8F]"

definition check_mark :: string where
  "check_mark = [CHR 0xE2, CHR 0x9C, CHR 0x85]"

definition information_sign :: string where
  "information_sign = [CHR 0xE2, CHR 0x84, CHR 0xB9, CHR 0xEF, CHR 0xB8, CHR 0x8F]"

record world =
  NODE_ENV :: "string option"
  utc_clock :: "nat \<Rightarrow> string"
  clock_reads :: nat
  console :: "console_line list"

definition Date_toUTCString :: "world \<Rightarrow> string \<times> world" where
  "Date_toUTCString w = (utc_clock w (clock_reads w), w\<lparr>clock_reads := Suc (clock_reads w)\<rparr>)"

definition console_write :: "console_line list \<Rightarrow> world \<Rightarrow> world" where
  "console_write ls w = w\<lparr>console := console w @ ls\<rparr>"

datatype error = Error string | TypeError

section \<open>utils/auth.ts\<close>

text \<open>The string that \<open>generateLicenseApiSignature\<close> hashes (its lines 13 to 18).\<close>

definition signingString :: "string \<Rightarrow> string \<Rightarrow> string option \<Rightarrow> string option \<Rightarrow> string" where
  "signingString apiKey date licenseKey hardwareId =
     (let s = ''licenseSpring'' @ [CHR 0x0A] @ ''date: '' @ date
      in if truthy licenseKey \<and> truthy hardwareId
         then s @ [CHR 0x0A] @ interp licenseKey @ [CHR 0x0A] @ interp hardwareId
                @ [CHR 0x0A] @ apiKey
         else s)"

definition generateLicenseApiSignature ::
  "string \<Rightarrow> string \<Rightarrow> string \<Rightarrow> string option \<Rightarrow> string option \<Rightarrow> string" where
  "generateLicenseApiSignature sharedKey apiKey date licenseKey hardwareId =
     hmac_sha256_base64 sharedKey (signingString apiKey date licenseKey hardwareId)"

record auth_header =
  header_date :: string
  header_authorization :: string

definition generateLicenseApiAuthHeader ::
  "string \<Rightarrow> string \<Rightarrow> string option \<Rightarrow> string option \<Rightarrow> world \<Rightarrow> auth_header \<times> world" where
  \<open>generateLicenseApiAuthHeader sharedKey apiKey licenseKey hardwareId w =
     (let (date, w') = Date_toUTCString w;
          signature = generateLicenseApiSignature sharedKey apiKey date licenseKey hardwareId;
          authorization = ''algorithm="hmac-sha256",headers="date",signature="'' @ signature
            @ ''",apikey="'' @ apiKey @ ''"''
      in (\<lparr>header_date = date, header_authorization = authorization\<rparr>, w'))\<close>

definition generateManagementApiAuthHeader :: "string \<Rightarrow> string" where
  "generateManagementApiAuthHeader apiKey = ''Api-Key '' @ apiKey"

definition api_key_required :: error where
  "api_key_required = Error
     ''LICENSE_API_KEY is required as the primary authentication method for License API operations''"

text \<open>
  \<open>if (!apiKey) throw\<close>: the two falsy values of an optional string are the first two
  branches. A raise leaves the console as it was.
\<close>

definition validateLicenseApiAuth ::
  "string option \<Rightarrow> string option \<Rightarrow> world \<Rightarrow> (error + unit) \<times> world" where
  "validateLicenseApiAuth apiKey sharedKey w =
     (case apiKey of
        None \<Rightarrow> (Inl api_key_required, w)
      | Some k \<Rightarrow>
          if k = [] then (Inl api_key_required, w)
          else
            let isTestMode = (startsWith k ''test-'' \<or> NODE_ENV w = Some ''test'');
                hasSharedKey = (truthy sharedKey \<and> \<not> isTestMode)
            in if isTestMode then
                 (Inr (), console_write
                    [Warn (warning_sign @ ''  Running in TEST MODE - API calls will use mock authentication''),
                     Warn ''   Using LICENSE_API_KEY for test authentication''] w)
               else if hasSharedKey then
                 (Inr (), console_write
                    [Log (check_mark @ '' License API authentication configured with LICENSE_API_KEY (primary) and LICENSE_SHARED_KEY (enhanced security)'')] w)
               else
                 (Inr (), console_write
                    [Log (check_mark @ '' License API authentication configured with LICENSE_API_KEY (primary authentication method)''),
                     Warn (information_sign @ ''  LICENSE_SHARED_KEY not provided - this is optional for organizations using shared API settings''),
                     Warn ''   The MCP server will use LICENSE_API_KEY as the primary authentication method'',
                     Warn ''   If your organization requires shared key authentication, please provide LICENSE_SHARED_KEY''] w))"

section \<open>utils/http.ts: the License API client\<close>

text \<open>
  The class \<open>LicenseApiClient\<close> with its private fields; the constructor computes the two
  flags once, and the request interceptor it installs reads the fields only. The axios
  instance behind the client is not modelled: a request is the configuration the
  interceptor receives, and the interceptor sets its \<open>Date\<close> and \<open>Authorization\<close> headers.
\<close>

record LicenseApiClient_obj =
  this_baseURL :: string
  this_apiKey :: string
  this_sharedKey :: "string option"
  this_isTestMode :: bool
  this_hasSharedKey :: bool

definition LicenseApiClient ::
  "string \<Rightarrow> string \<Rightarrow> string option \<Rightarrow> world \<Rightarrow> LicenseApiClient_obj" where
  "LicenseApiClient baseURL apiKey sharedKey w =
     (let isTestMode = (startsWith apiKey ''test-'' \<or> NODE_ENV w = Some ''test'');
          hasSharedKey = (truthy sharedKey \<and> \<not> isTestMode)
      in \<lparr>this_baseURL = baseURL, this_apiKey = apiKey, this_sharedKey = sharedKey,
          this_isTestMode = isTestMode, this_hasSharedKey = hasSharedKey\<rparr>)"

record request_config =
  headers :: "string \<rightharpoonup> string"

text \<open>
  The request interceptor. \<open>this.sharedKey!\<close> only silences the type checker: were the
  field \<open>undefined\<close> in the signing branch, \<open>createHmac\<close> would raise a \<open>TypeError\<close>
  after the clock has been read.
\<close>

definition interceptor ::
  "LicenseApiClient_obj \<Rightarrow> request_config \<Rightarrow> world \<Rightarrow> (error + request_config) \<times> world" where
  \<open>interceptor this config w =
     (if this_isTestMode this then
        (let (date, w') = Date_toUTCString w
         in (Inr (config\<lparr>headers := (headers config)
               (''Date'' \<mapsto> date,
                ''Authorization'' \<mapsto>
                  ''algorithm="hmac-sha256",headers="date",signature="test-signature",apikey="''
                    @ this_apiKey this @ ''"'')\<rparr>), w'))
      else if this_hasSharedKey this then
        (case this_sharedKey this of
           None \<Rightarrow> (Inl TypeError, snd (Date_toUTCString w))
         | Some sharedKey \<Rightarrow>
             (let (h, w') = generateLicenseApiAuthHeader sharedKey (this_apiKey this) None None w
              in (Inr (config\<lparr>headers := (headers config)
                    (''Date'' \<mapsto> header_date h,
                     ''Authorization'' \<mapsto> header_authorization h)\<rparr>), w')))
      else
        (let (date, w') = Date_toUTCString w
         in (Inr (config\<lparr>headers := (headers config)
               (''Date'' \<mapsto> date,
                ''Authorization'' \<mapsto> ''apikey="'' @ this_apiKey this @ ''"'')\<rparr>), w')))\<close>

text \<open>
  The branch of the interceptor a client takes: the source's comments call them test
  mode, enhanced security mode and standard mode, its documentation calls the last one
  limited mode.
\<close>

datatype auth_mode = TestMode | EnhancedMode | LimitedMode

definition mode_of :: "LicenseApiClient_obj \<Rightarrow> auth_mode" where
  "mode_of this =
     (if this_isTestMode this then TestMode
      else if this_hasSharedKey this then EnhancedMode
      else LimitedMode)"

text \<open>The \<open>Authorization\<close> header of an intercepted request, if the interceptor returned.\<close>

definition Authorization_of :: "(error + request_config) \<times> world \<Rightarrow> string option" where
  "Authorization_of r = (case fst r of Inl e \<Rightarrow> None | Inr config \<Rightarrow> headers config ''Authorization'')"

section \<open>A concrete process and request for the examples\<close>

definition world0 :: world where
  "world0 = \<lparr>NODE_ENV = None, utc_clock = (\<lambda>n. ''Mon, 19 Oct 2020 15:42:27 GMT''),
             clock_reads = 0, console = []\<rparr>"

definition config0 :: request_config where
  "config0 = \<lparr>headers = Map.empty\<rparr>"

section \<open>Basic facts\<close>

lemma startsWith_prefix: "startsWith s p = prefix p s"
  unfolding startsWith_def
  by (metis append_eq_conv_conj prefix_def append_take_drop_id)

lemma truthy_iff: "truthy x = (\<exists>s. x = Some s \<and> s \<noteq> [])"
  by (cases x) (simp_all add: truthy_def)

lemma not_truthy_iff: "(\<not> truthy x) = (x = None \<or> x = Some [])"
  by (cases x) (simp_all add: truthy_def)

subsection \<open>The digest has 32 bytes, its base64 text 44 characters\<close>

lemma length_w32_bytes: "length (w32_bytes w) = 4"
  by (simp add: w32_bytes_def)

lemma length_hstate_bytes: "length (hstate_bytes st) = 32"
  by (cases st rule: hstate_bytes.cases) (simp add: length_w32_bytes)

lemma length_sha256: "length (sha256 m) = 32"
  by (simp add: sha256_def length_hstate_bytes)

lemma length_hmac_sha256: "length (hmac_sha256 key msg) = 32"
  by (simp add: hmac_sha256_def Let_def length_sha256)

lemma length_base64: "length (base64 bs) = 4 * ((length bs + 2) div 3)"
proof (induction bs rule: base64.induct)
  case (4 a b c rest)
  have "(5 + length rest) div 3 = Suc ((Suc (Suc (length rest))) div 3)"
    by presburger
  with 4 show ?case by (simp add: Let_def)
qed (simp_all add: Let_def)

lemma sextet_bound: "unat ((n::w32) AND 63) < 64"
  using word_and_le1[of n 63] by (simp add: word_le_nat_alt)

lemma b64_char_in_alphabet: "b64_char n \<in> set b64_alphabet"
proof -
  have "unat (n AND 63) < length b64_alphabet"
    using sextet_bound[of n] by (simp add: b64_alphabet_def)
  then show ?thesis
    unfolding b64_char_def by (rule nth_mem)
qed

lemma set_base64: "set (base64 bs) \<subseteq> insert (CHR ''='') (set b64_alphabet)"
  by (induction bs rule: base64.induct) (auto simp: Let_def b64_char_in_alphabet)

subsection \<open>The model of HMAC-SHA256 on known values\<close>

text \<open>
  Test case 2 of RFC 4231, and the signatures Node computes for the inputs of the
  repository's own unit tests (without and with the two identifiers).
\<close>

lemma hmac_sha256_rfc4231_case2:
  "hmac_sha256 (utf8 ''Jefe'') (utf8 ''what do ya want for nothing?'') =
     [0x5B, 0xDC, 0xC1, 0x46, 0xBF, 0x60, 0x75, 0x4E, 0x6A, 0x04, 0x24, 0x26, 0x08, 0x95,
      0x75, 0xC7, 0x5A, 0x00, 0x3F, 0x08, 0x9D, 0x27, 0x39, 0x83, 0x9D, 0xEC, 0x58, 0xB9,
      0x64, 0xEC, 0x38, 0x43]"
  by code_simp

lemma signature_of_unit_test_inputs:
  "generateLicenseApiSignature ''test-shared-key'' ''test-api-key''
     ''Mon, 19 Oct 2020 15:42:27 GMT'' None None
   = ''IAu+cxzAjEaKmTKWBjeuLFw1kd0sk5QjB2xM5qjupgo=''"
  by code_simp

lemma offline_signature_of_unit_test_inputs:
  "generateLicenseApiSignature ''test-shared-key'' ''test-api-key''
     ''Mon, 19 Oct 2020 15:42:27 GMT'' (Some ''TEST-LICENSE-KEY'') (Some ''test-hardware-id'')
   = ''tMhzT0vmG6e44Um+uF4609sWMLlqFUXhE2UpB+Z6P8Q=''"
  by code_simp

subsection \<open>The client's mode and the header of each mode\<close>

lemma mode_of_LicenseApiClient:
  "mode_of (LicenseApiClient baseURL apiKey sharedKey w) =
     (if startsWith apiKey ''test-'' \<or> NODE_ENV w = Some ''test'' then TestMode
      else if truthy sharedKey then EnhancedMode else LimitedMode)"
  by (simp add: mode_of_def LicenseApiClient_def)

lemma Authorization_of_interceptor:
  \<open>Authorization_of (interceptor (LicenseApiClient baseURL apiKey sharedKey w) config w') =
     Some (case mode_of (LicenseApiClient baseURL apiKey sharedKey w) of
        TestMode \<Rightarrow>
          ''algorithm="hmac-sha256",headers="date",signature="test-signature",apikey="''
            @ apiKey @ ''"''
      | EnhancedMode \<Rightarrow>
          ''algorithm="hmac-sha256",headers="date",signature="''
            @ hmac_sha256_base64 (interp sharedKey)
                (signingString apiKey (utc_clock w' (clock_reads w')) None None)
            @ ''",apikey="'' @ apiKey @ ''"''
      | LimitedMode \<Rightarrow> ''apikey="'' @ apiKey @ ''"'')\<close>
  by (cases sharedKey)
     (simp_all add: mode_of_def interceptor_def LicenseApiClient_def Date_toUTCString_def
        truthy_def Authorization_of_def generateLicenseApiAuthHeader_def
        generateLicenseApiSignature_def)

subsection \<open>Where the text \<open>signature=\<close> can stand in a key-only header\<close>

lemma sublist_snoc_other:
  assumes "sublist xs (ys @ [c])" and "xs \<noteq> []" and "last xs \<noteq> c"
  shows "sublist xs ys"
proof -
  from assms(1) obtain ps ss where eq: "ys @ [c] = ps @ xs @ ss"
    by (auto simp: sublist_def)
  show ?thesis
  proof (cases ss rule: rev_cases)
    case Nil
    with eq assms(2) have "last (ys @ [c]) = last xs" by simp
    with assms(3) show ?thesis by simp
  next
    case (snoc ss' d)
    with eq have "ys @ [c] = (ps @ xs @ ss') @ [d]" by simp
    then have "ys = ps @ xs @ ss'" by (simp only: append1_eq_conv)
    then show ?thesis by (auto simp: sublist_def)
  qed
qed

lemma signature_in_limited_header:
  \<open>sublist ''signature='' (''apikey="'' @ apiKey @ ''"'') = sublist ''signature='' apiKey\<close>
proof
  assume \<open>sublist ''signature='' (''apikey="'' @ apiKey @ ''"'')\<close>
  then have "sublist ''signature='' (apiKey @ [CHR 0x22])"
    by (simp add: sublist_Cons_right)
  then show "sublist ''signature='' apiKey"
    by (rule sublist_snoc_other) simp_all
next
  assume "sublist ''signature='' apiKey"
  then obtain ps ss where "apiKey = ps @ ''signature='' @ ss"
    by (auto simp: sublist_def)
  then have \<open>''apikey="'' @ apiKey @ ''"'' = (''apikey="'' @ ps) @ ''signature='' @ (ss @ ''"'')\<close>
    by simp
  then show \<open>sublist ''signature='' (''apikey="'' @ apiKey @ ''"'')\<close>
    unfolding sublist_def by blast
qed

section \<open>The canonical signing string\<close>

text \<open>
  C1 (as amended). For every shared secret, primary key and timestamp, the string hashed
  by \<open>generateLicenseApiSignature\<close> is \<open>licenseSpring\<close>, a newline, then \<open>date: \<close> and the
  timestamp; the three further segments (license identifier, hardware identifier,
  primary key, each after a newline) are appended exactly when both identifiers are
  passed and neither is the empty string. If either is missing or empty, the base string
  alone is signed.
\<close>

theorem generateLicenseApiSignature_signing_string:
  "generateLicenseApiSignature sharedKey apiKey date licenseKey hardwareId =
     hmac_sha256_base64 sharedKey
       (case (licenseKey, hardwareId) of
          (Some l, Some h) \<Rightarrow>
            if l \<noteq> [] \<and> h \<noteq> []
            then ''licenseSpring'' @ [CHR 0x0A] @ ''date: '' @ date
                   @ [CHR 0x0A] @ l @ [CHR 0x0A] @ h @ [CHR 0x0A] @ apiKey
            else ''licenseSpring'' @ [CHR 0x0A] @ ''date: '' @ date
        | _ \<Rightarrow> ''licenseSpring'' @ [CHR 0x0A] @ ''date: '' @ date)"
  by (simp add: generateLicenseApiSignature_def signingString_def truthy_def Let_def
      split: option.splits)

text \<open>
  C1 as stated fails: with an empty license identifier and the hardware identifier
  \<open>HW\<close> both identifiers are supplied, and the base string alone is signed.
\<close>

theorem signing_string_empty_identifier_counterexample:
  "Some [] \<noteq> (None :: string option) \<and> Some ''HW'' \<noteq> None \<and>
   signingString ''KEY'' ''D'' (Some []) (Some ''HW'') =
     ''licenseSpring'' @ [CHR 0x0A] @ ''date: D'' \<and>
   generateLicenseApiSignature ''S'' ''KEY'' ''D'' (Some []) (Some ''HW'') =
     hmac_sha256_base64 ''S'' (''licenseSpring'' @ [CHR 0x0A] @ ''date: D'')"
  by (simp add: generateLicenseApiSignature_def signingString_def truthy_def)

text \<open>
  C10. An empty license identifier or an empty hardware identifier is treated as an
  absent one: whenever either is the empty string, the base string is signed and the
  signature is the one of the call with both identifiers omitted. The result is a
  string; the function has no failure to report.
\<close>

theorem empty_identifier_signs_base_string:
  "licenseKey = Some [] \<or> hardwareId = Some [] \<Longrightarrow>
     signingString apiKey date licenseKey hardwareId =
       ''licenseSpring'' @ [CHR 0x0A] @ ''date: '' @ date \<and>
     generateLicenseApiSignature sharedKey apiKey date licenseKey hardwareId =
       generateLicenseApiSignature sharedKey apiKey date None None"
  by (auto simp: generateLicenseApiSignature_def signingString_def truthy_def Let_def)

theorem empty_identifier_signs_base_string_witness:
  "signingString ''KEY'' ''D'' (Some ''LICENSE'') (Some []) =
     ''licenseSpring'' @ [CHR 0x0A] @ ''date: D'' \<and>
   generateLicenseApiSignature ''S'' ''KEY'' ''D'' (Some ''LICENSE'') (Some []) =
     generateLicenseApiSignature ''S'' ''KEY'' ''D'' None None"
  using empty_identifier_signs_base_string
    [of "Some ''LICENSE''" "Some []" "''KEY''" "''D''" "''S''"]
  by simp

text \<open>
  C8. \<open>generateLicenseApiSignature\<close> is total: for all string inputs it returns a
  base64 text, 44 characters of the base64 alphabet and the padding sign (the encoding
  of a 32-byte digest). Header construction has no failure either: the interceptor of
  a constructed client always returns a request.
\<close>

theorem generateLicenseApiSignature_total:
  "length (generateLicenseApiSignature sharedKey apiKey date licenseKey hardwareId) = 44 \<and>
   set (generateLicenseApiSignature sharedKey apiKey date licenseKey hardwareId)
     \<subseteq> insert (CHR ''='') (set b64_alphabet) \<and>
   (\<exists>config'.
      fst (interceptor (LicenseApiClient baseURL apiKey secret w) config w') = Inr config')"
proof (intro conjI)
  show "length (generateLicenseApiSignature sharedKey apiKey date licenseKey hardwareId) = 44"
    by (simp add: generateLicenseApiSignature_def hmac_sha256_base64_def length_base64
        length_hmac_sha256)
  show "set (generateLicenseApiSignature sharedKey apiKey date licenseKey hardwareId)
     \<subseteq> insert (CHR ''='') (set b64_alphabet)"
    by (simp only: generateLicenseApiSignature_def hmac_sha256_base64_def set_base64)
  show "\<exists>config'.
      fst (interceptor (LicenseApiClient baseURL apiKey secret w) config w') = Inr config'"
    by (cases secret)
       (simp_all add: interceptor_def LicenseApiClient_def Date_toUTCString_def truthy_def
          generateLicenseApiAuthHeader_def Let_def)
qed

section \<open>The signed header\<close>

text \<open>
  C2. For every shared secret and primary key, the authorization value that
  \<open>generateLicenseApiAuthHeader\<close> returns is the text
  \<open>algorithm="hmac-sha256",headers="date",signature="<s>",apikey="<primary key>"\<close>,
  fields in that order, values in double quotes, no space around the commas, where
  \<open><s>\<close> is the base64 encoding of the HMAC-SHA256, keyed by the shared secret, of the
  canonical string built on the timestamp read at the call.
\<close>

theorem generateLicenseApiAuthHeader_authorization_format:
  \<open>header_authorization
     (fst (generateLicenseApiAuthHeader sharedKey apiKey licenseKey hardwareId w)) =
     ''algorithm="hmac-sha256",headers="date",signature="''
       @ base64 (hmac_sha256 (utf8 sharedKey)
           (utf8 (signingString apiKey (utc_clock w (clock_reads w)) licenseKey hardwareId)))
       @ ''",apikey="'' @ apiKey @ ''"''\<close>
  by (simp add: generateLicenseApiAuthHeader_def Date_toUTCString_def
      generateLicenseApiSignature_def hmac_sha256_base64_def)

lemma signingString_explicit:
  "signingString apiKey date licenseKey hardwareId =
     ''licenseSpring'' @ [CHR 0x0A] @ ''date: '' @ date @
       (case (licenseKey, hardwareId) of
          (Some l, Some hw) \<Rightarrow>
            if l \<noteq> [] \<and> hw \<noteq> []
            then [CHR 0x0A] @ l @ [CHR 0x0A] @ hw @ [CHR 0x0A] @ apiKey
            else []
        | _ \<Rightarrow> [])"
  by (simp add: signingString_def truthy_def Let_def split: option.splits)

text \<open>
  C6. Every call of \<open>generateLicenseApiAuthHeader\<close> reads the clock once (the count of
  readings goes up by one, so the next call gets the next reading) and returns that
  timestamp both as the date output and, unchanged, as the date inside the text that is
  signed: the signed text is \<open>licenseSpring\<close>, a newline, \<open>date: \<close>, then the very string
  returned as the date, then the three further segments when both identifiers are
  passed and non-empty. The signature in the authorization value is the HMAC of that
  text, so no signature is returned that is not bound to the timestamp of its call.
\<close>

theorem generateLicenseApiAuthHeader_timestamp_bound:
  \<open>(case generateLicenseApiAuthHeader sharedKey apiKey licenseKey hardwareId w of
      (h, w') \<Rightarrow>
        header_date h = utc_clock w (clock_reads w) \<and>
        clock_reads w' = Suc (clock_reads w) \<and>
        utc_clock w' = utc_clock w \<and>
        header_authorization h =
          ''algorithm="hmac-sha256",headers="date",signature="''
            @ base64 (hmac_sha256 (utf8 sharedKey)
                (utf8 (''licenseSpring'' @ [CHR 0x0A] @ ''date: '' @ header_date h @
                   (case (licenseKey, hardwareId) of
                      (Some l, Some hw) \<Rightarrow>
                        if l \<noteq> [] \<and> hw \<noteq> []
                        then [CHR 0x0A] @ l @ [CHR 0x0A] @ hw @ [CHR 0x0A] @ apiKey
                        else []
                    | _ \<Rightarrow> []))))
            @ ''",apikey="'' @ apiKey @ ''"'')\<close>
proof -
  have sig: \<open>generateLicenseApiSignature sharedKey apiKey (utc_clock w (clock_reads w))
        licenseKey hardwareId =
      base64 (hmac_sha256 (utf8 sharedKey)
        (utf8 (''licenseSpring'' @ [CHR 0x0A] @ ''date: '' @ utc_clock w (clock_reads w) @
           (case (licenseKey, hardwareId) of
              (Some l, Some hw) \<Rightarrow>
                if l \<noteq> [] \<and> hw \<noteq> []
                then [CHR 0x0A] @ l @ [CHR 0x0A] @ hw @ [CHR 0x0A] @ apiKey
                else []
            | _ \<Rightarrow> []))))\<close>
    by (simp only: generateLicenseApiSignature_def hmac_sha256_base64_def
        signingString_explicit)
  show ?thesis
    by (simp add: generateLicenseApiAuthHeader_def Date_toUTCString_def sig)
qed

section \<open>The static header of the Management API\<close>

text \<open>
  C9. For every API key, \<open>generateManagementApiAuthHeader\<close> returns the literal prefix
  \<open>Api-Key\<close>, one space, then the key unchanged. The function takes the key alone: it
  reads neither the clock nor the environment and hashes nothing.
\<close>

theorem generateManagementApiAuthHeader_exact:
  "generateManagementApiAuthHeader apiKey = ''Api-Key'' @ '' '' @ apiKey"
  by (simp add: generateManagementApiAuthHeader_def)

section \<open>The modes of the License API client\<close>

text \<open>
  C3 (as amended). The mode of a client is fixed by the primary key, the shared secret
  and \<open>NODE_ENV\<close> as they are at construction: test mode exactly when the key starts with
  \<open>test-\<close> or \<open>NODE_ENV\<close> is \<open>test\<close>; enhanced mode exactly when a shared secret is present
  and not the empty string and test mode is off; limited mode exactly when the shared
  secret is absent or the empty string and test mode is off. Every later request, in
  whatever state \<open>w'\<close> the process then is, gets the header of that mode.
\<close>

theorem LicenseApiClient_mode_classification:
  \<open>(mode_of (LicenseApiClient baseURL apiKey sharedKey w) = TestMode) =
      (startsWith apiKey ''test-'' \<or> NODE_ENV w = Some ''test'') \<and>
   (mode_of (LicenseApiClient baseURL apiKey sharedKey w) = EnhancedMode) =
      ((\<exists>s. sharedKey = Some s \<and> s \<noteq> []) \<and>
       \<not> (startsWith apiKey ''test-'' \<or> NODE_ENV w = Some ''test'')) \<and>
   (mode_of (LicenseApiClient baseURL apiKey sharedKey w) = LimitedMode) =
      ((sharedKey = None \<or> sharedKey = Some []) \<and>
       \<not> (startsWith apiKey ''test-'' \<or> NODE_ENV w = Some ''test'')) \<and>
   Authorization_of (interceptor (LicenseApiClient baseURL apiKey sharedKey w) config w') =
     Some (case mode_of (LicenseApiClient baseURL apiKey sharedKey w) of
        TestMode \<Rightarrow>
          ''algorithm="hmac-sha256",headers="date",signature="test-signature",apikey="''
            @ apiKey @ ''"''
      | EnhancedMode \<Rightarrow>
          ''algorithm="hmac-sha256",headers="date",signature="''
            @ hmac_sha256_base64 (interp sharedKey)
                (signingString apiKey (utc_clock w' (clock_reads w')) None None)
            @ ''",apikey="'' @ apiKey @ ''"''
      | LimitedMode \<Rightarrow> ''apikey="'' @ apiKey @ ''"'')\<close>
proof (intro conjI)
  show \<open>Authorization_of (interceptor (LicenseApiClient baseURL apiKey sharedKey w) config w') =
     Some (case mode_of (LicenseApiClient baseURL apiKey sharedKey w) of
        TestMode \<Rightarrow>
          ''algorithm="hmac-sha256",headers="date",signature="test-signature",apikey="''
            @ apiKey @ ''"''
      | EnhancedMode \<Rightarrow>
          ''algorithm="hmac-sha256",headers="date",signature="''
            @ hmac_sha256_base64 (interp sharedKey)
                (signingString apiKey (utc_clock w' (clock_reads w')) None None)
            @ ''",apikey="'' @ apiKey @ ''"''
      | LimitedMode \<Rightarrow> ''apikey="'' @ apiKey @ ''"'')\<close>
    by (rule Authorization_of_interceptor)
qed (cases sharedKey; simp add: mode_of_LicenseApiClient truthy_def)+

text \<open>
  C3 as stated fails: with an empty shared secret a shared secret is present and test
  mode is off, yet the client is in limited mode and sends the key-only header.
\<close>

theorem empty_shared_key_limited_counterexample:
  \<open>Some [] \<noteq> (None :: string option) \<and>
   \<not> startsWith ''live-key'' ''test-'' \<and> NODE_ENV world0 \<noteq> Some ''test'' \<and>
   mode_of (LicenseApiClient ''https://api.licensespring.com'' ''live-key'' (Some []) world0)
     = LimitedMode \<and>
   Authorization_of (interceptor
      (LicenseApiClient ''https://api.licensespring.com'' ''live-key'' (Some []) world0)
      config0 world0) = Some ''apikey="live-key"''\<close>
  by (simp add: mode_of_def interceptor_def LicenseApiClient_def Date_toUTCString_def
      startsWith_def truthy_def Authorization_of_def world0_def)

text \<open>
  C4. If the primary key starts with \<open>test-\<close> (or \<open>NODE_ENV\<close> is \<open>test\<close>), the interceptor of
  the client writes the header with the placeholder \<open>test-signature\<close>, whatever the
  shared secret is: the request it returns does not depend on the shared secret.
\<close>

theorem test_mode_placeholder_signature:
  \<open>startsWith apiKey ''test-'' \<or> NODE_ENV w = Some ''test'' \<Longrightarrow>
     interceptor (LicenseApiClient baseURL apiKey sharedKey w) config w' =
       (Inr (config\<lparr>headers := (headers config)
          (''Date'' \<mapsto> utc_clock w' (clock_reads w'),
           ''Authorization'' \<mapsto>
             ''algorithm="hmac-sha256",headers="date",signature="test-signature",apikey="''
               @ apiKey @ ''"'')\<rparr>),
        w'\<lparr>clock_reads := Suc (clock_reads w')\<rparr>)\<close>
  by (simp add: interceptor_def LicenseApiClient_def Date_toUTCString_def)

theorem test_mode_placeholder_signature_witness:
  \<open>startsWith ''test-key'' ''test-'' \<and>
   Authorization_of (interceptor
      (LicenseApiClient ''https://api.licensespring.com'' ''test-key'' (Some ''secret'') world0)
      config0 world0) =
     Some ''algorithm="hmac-sha256",headers="date",signature="test-signature",apikey="test-key"''\<close>
  using test_mode_placeholder_signature
    [where apiKey = "''test-key''" and baseURL = "''https://api.licensespring.com''"
       and sharedKey = "Some ''secret''" and w = world0 and config = config0 and w' = world0]
  by (simp add: startsWith_def Authorization_of_def)

text \<open>
  C5 (as amended). Whenever the shared secret is empty or absent and test mode is off
  (the key does not start with \<open>test-\<close> and \<open>NODE_ENV\<close> is not \<open>test\<close>), the
  \<open>Authorization\<close> header of the client is \<open>apikey="<primary key>"\<close> and nothing else: no
  signature enters it, and the text \<open>signature=\<close> stands in it only if it stands in the
  primary key itself.
\<close>

theorem limited_mode_header_key_only:
  \<open>\<not> truthy sharedKey \<Longrightarrow> \<not> startsWith apiKey ''test-'' \<Longrightarrow> NODE_ENV w \<noteq> Some ''test'' \<Longrightarrow>
     interceptor (LicenseApiClient baseURL apiKey sharedKey w) config w' =
       (Inr (config\<lparr>headers := (headers config)
          (''Date'' \<mapsto> utc_clock w' (clock_reads w'),
           ''Authorization'' \<mapsto> ''apikey="'' @ apiKey @ ''"'')\<rparr>),
        w'\<lparr>clock_reads := Suc (clock_reads w')\<rparr>) \<and>
     sublist ''signature='' (''apikey="'' @ apiKey @ ''"'') = sublist ''signature='' apiKey\<close>
  by (intro conjI)
     (simp add: interceptor_def LicenseApiClient_def Date_toUTCString_def,
      rule signature_in_limited_header)

theorem limited_mode_header_key_only_witness:
  \<open>\<not> truthy None \<and> \<not> startsWith ''live-key'' ''test-'' \<and> NODE_ENV world0 \<noteq> Some ''test'' \<and>
   Authorization_of (interceptor
      (LicenseApiClient ''https://api.licensespring.com'' ''live-key'' None world0)
      config0 world0) = Some ''apikey="live-key"'' \<and>
   \<not> sublist ''signature='' ''apikey="live-key"''\<close>
  using limited_mode_header_key_only
    [of None "''live-key''" world0 "''https://api.licensespring.com''" config0 world0]
  by (simp add: truthy_def startsWith_def world0_def Authorization_of_def sublist_Cons_right)

text \<open>
  C5 as stated fails: with the key \<open>test-key\<close> and no shared secret the client is in test
  mode, and its header carries \<open>signature="test-signature"\<close>.
\<close>

theorem absent_shared_key_test_mode_counterexample:
  \<open>Authorization_of (interceptor
      (LicenseApiClient ''https://api.licensespring.com'' ''test-key'' None world0)
      config0 world0) =
     Some ''algorithm="hmac-sha256",headers="date",signature="test-signature",apikey="test-key"'' \<and>
   sublist ''signature=''
     ''algorithm="hmac-sha256",headers="date",signature="test-signature",apikey="test-key"''\<close>
proof
  show \<open>Authorization_of (interceptor
      (LicenseApiClient ''https://api.licensespring.com'' ''test-key'' None world0)
      config0 world0) =
     Some ''algorithm="hmac-sha256",headers="date",signature="test-signature",apikey="test-key"''\<close>
    by (simp add: interceptor_def LicenseApiClient_def Date_toUTCString_def startsWith_def
        Authorization_of_def)
  show \<open>sublist ''signature=''
     ''algorithm="hmac-sha256",headers="date",signature="test-signature",apikey="test-key"''\<close>
    by (simp add: sublist_Cons_right)
qed

section \<open>Validation at start-up\<close>

text \<open>
  C7 (as amended). \<open>validateLicenseApiAuth\<close> raises the configuration error if and only
  if the primary key is missing or the empty string; with a non-empty primary key it
  returns for every shared secret, present or absent. An absent or empty shared secret
  raises nothing: the call returns and writes a warning on the console.
\<close>

theorem validateLicenseApiAuth_result:
  "fst (validateLicenseApiAuth apiKey sharedKey w) =
     (if apiKey = None \<or> apiKey = Some []
      then Inl (Error ''LICENSE_API_KEY is required as the primary authentication method for License API operations'')
      else Inr ()) \<and>
   ((\<exists>k. apiKey = Some k \<and> k \<noteq> []) \<and> (sharedKey = None \<or> sharedKey = Some []) \<longrightarrow>
      (\<exists>ls m. console (snd (validateLicenseApiAuth apiKey sharedKey w)) = console w @ ls \<and>
               Warn m \<in> set ls))"
proof (intro conjI impI)
  show "fst (validateLicenseApiAuth apiKey sharedKey w) =
     (if apiKey = None \<or> apiKey = Some []
      then Inl (Error ''LICENSE_API_KEY is required as the primary authentication method for License API operations'')
      else Inr ())"
    by (cases apiKey) (simp_all add: validateLicenseApiAuth_def api_key_required_def Let_def)
next
  assume "(\<exists>k. apiKey = Some k \<and> k \<noteq> []) \<and> (sharedKey = None \<or> sharedKey = Some [])"
  then obtain k where k: "apiKey = Some k" "k \<noteq> []" and s: "\<not> truthy sharedKey"
    by (auto simp: truthy_def)
  show "\<exists>ls m. console (snd (validateLicenseApiAuth apiKey sharedKey w)) = console w @ ls \<and>
               Warn m \<in> set ls"
  proof (cases "startsWith k ''test-'' \<or> NODE_ENV w = Some ''test''")
    case True
    with k s have "console (snd (validateLicenseApiAuth apiKey sharedKey w)) = console w @
       [Warn (warning_sign @ ''  Running in TEST MODE - API calls will use mock authentication''),
        Warn ''   Using LICENSE_API_KEY for test authentication'']"
      by (auto simp add: validateLicenseApiAuth_def console_write_def Let_def)
    then show ?thesis by fastforce
  next
    case False
    with k s have "console (snd (validateLicenseApiAuth apiKey sharedKey w)) = console w @
       [Log (check_mark @ '' License API authentication configured with LICENSE_API_KEY (primary authentication method)''),
        Warn (information_sign @ ''  LICENSE_SHARED_KEY not provided - this is optional for organizations using shared API settings''),
        Warn ''   The MCP server will use LICENSE_API_KEY as the primary authentication method'',
        Warn ''   If your organization requires shared key authentication, please provide LICENSE_SHARED_KEY'']"
      by (simp add: validateLicenseApiAuth_def console_write_def Let_def)
    then show ?thesis by fastforce
  qed
qed

theorem validateLicenseApiAuth_result_witness:
  "fst (validateLicenseApiAuth (Some ''api-key'') None world0) = Inr () \<and>
   (\<exists>ls m. console (snd (validateLicenseApiAuth (Some ''api-key'') None world0))
              = console world0 @ ls \<and> Warn m \<in> set ls)"
  using validateLicenseApiAuth_result [of "Some ''api-key''" None world0] by simp

text \<open>
  C7 as stated fails: an empty primary key is present, and the call raises.
\<close>

theorem empty_api_key_rejected_counterexample:
  "Some [] \<noteq> (None :: string option) \<and>
   fst (validateLicenseApiAuth (Some []) (Some ''shared-key'') world0) =
     Inl (Error ''LICENSE_API_KEY is required as the primary authentication method for License API operations'')"
  by (simp add: validateLicenseApiAuth_def api_key_required_def)

end
